theory Spec2Isabelle
  imports Main "HOL-Library.Log_Nat"
begin

text \<open>
  The arithmetic expression evaluator of \<^verbatim>\<open>flask_calculator_app.py\<close>: \<^verbatim>\<open>safe_eval\<close> with its
  inner \<^verbatim>\<open>_eval\<close>, the table \<^verbatim>\<open>ALLOWED_OPERATORS\<close>, and the request handler \<^verbatim>\<open>evaluate\<close>
  of the route \<^verbatim>\<open>/eval\<close>.  Exceptions are values of a sum type; Python's numbers are
  modelled as CPython 3.11 computes them: unbounded integers, IEEE 754 binary64 floats
  with round-to-nearest-even, and complex numbers as pairs of floats.
\<close>


section \<open>Python's numbers\<close>

text \<open>
  An exception is its class and its message, the text that \<^verbatim>\<open>str(e)\<close> returns.
\<close>

datatype exc = SyntaxError | IndentationError | ValueError | ZeroDivisionError | OverflowError | TypeError
  | AttributeError

datatype error = Exception (exc_type: exc) (str: string)

text \<open>
  A float is a binary64 number: \<open>Fin m e\<close> is the finite number \<open>m * 2 ^ e\<close>, written with an
  odd mantissa (and \<open>Fin 0 0\<close> for the positive zero), so that equal numbers are equal
  terms; the negative zero, the two infinities and NaN are constants.  A value of the
  evaluator is an int, a float, or a complex number given by its real and imaginary part.
\<close>

datatype pyfloat = Fin int int | NegZero | PInf | NInf | NaN

datatype pyval = VInt int | VFloat pyfloat | VComplex pyfloat pyfloat

function strip2 :: "int \<Rightarrow> int \<Rightarrow> pyfloat" where
  "strip2 m e = (if m \<noteq> 0 \<and> even m then strip2 (m div 2) (e + 1)
                 else if m = 0 then Fin 0 0 else Fin m e)"
  by pat_completeness auto
termination
  by (relation "measure (\<lambda>(m, e). nat \<bar>m\<bar>)") auto

text \<open>
  Rounding to the nearest binary64 number, ties to even.  \<open>round_pos n d\<close> rounds the
  positive quotient \<open>n / d\<close> to a mantissa of at most 53 bits and an exponent of at least
  \<open>- 1074\<close>, and is \<open>None\<close> when the rounded number reaches \<open>2 ^ 1024\<close>; \<open>round_ratio\<close> adds the
  sign and the infinities, and \<open>dyadic m e\<close> rounds \<open>m * 2 ^ e\<close>.
\<close>

definition round_pos :: "int \<Rightarrow> int \<Rightarrow> (int \<times> int) option" where
  "round_pos n d =
     (let k = bitlen n - bitlen d;
          e0 = (if n * 2 ^ nat (53 - k) < d * 2 ^ nat (k - 53) * 2 ^ 53 then k - 53 else k - 52);
          e = max e0 (- 1074);
          N = n * 2 ^ nat (- e);
          D = d * 2 ^ nat e;
          q = N div D;
          r = N mod D;
          m = (if D < 2 * r \<or> (2 * r = D \<and> odd q) then q + 1 else q)
      in if 2 ^ 1024 \<le> m * 2 ^ nat e then None else Some (m, e))"

definition round_ratio :: "int \<Rightarrow> int \<Rightarrow> pyfloat" where
  "round_ratio n d =
     (if n = 0 then Fin 0 0
      else if 0 < n then (case round_pos n d of None \<Rightarrow> PInf
                          | Some (m, e) \<Rightarrow> strip2 m e)
      else (case round_pos (- n) d of None \<Rightarrow> NInf
            | Some (m, e) \<Rightarrow> if m = 0 then NegZero else strip2 (- m) e))"

definition dyadic :: "int \<Rightarrow> int \<Rightarrow> pyfloat" where
  "dyadic m e = (if 0 \<le> e then round_ratio (m * 2 ^ nat e) 1 else round_ratio m (2 ^ nat (- e)))"

fun is_zero :: "pyfloat \<Rightarrow> bool" where
  "is_zero (Fin m e) = (m = 0)"
| "is_zero NegZero = True"
| "is_zero _ = False"

fun is_inf :: "pyfloat \<Rightarrow> bool" where
  "is_inf PInf = True"
| "is_inf NInf = True"
| "is_inf _ = False"

fun signbit :: "pyfloat \<Rightarrow> bool" where
  "signbit (Fin m e) = (m < 0)"
| "signbit NegZero = True"
| "signbit NInf = True"
| "signbit _ = False"

fun lt0 :: "pyfloat \<Rightarrow> bool" where
  "lt0 (Fin m e) = (m < 0)"
| "lt0 NInf = True"
| "lt0 _ = False"

fun gt0 :: "pyfloat \<Rightarrow> bool" where
  "gt0 (Fin m e) = (0 < m)"
| "gt0 PInf = True"
| "gt0 _ = False"

fun mant :: "pyfloat \<Rightarrow> int" where
  "mant (Fin m e) = m"
| "mant _ = 0"

fun expo :: "pyfloat \<Rightarrow> int" where
  "expo (Fin m e) = e"
| "expo _ = 0"

definition inf :: "bool \<Rightarrow> pyfloat" where
  "inf s = (if s then NInf else PInf)"

definition zero :: "bool \<Rightarrow> pyfloat" where
  "zero s = (if s then NegZero else Fin 0 0)"

fun float_neg :: "pyfloat \<Rightarrow> pyfloat" where
  "float_neg (Fin m e) = (if m = 0 then NegZero else Fin (- m) e)"
| "float_neg NegZero = Fin 0 0"
| "float_neg PInf = NInf"
| "float_neg NInf = PInf"
| "float_neg NaN = NaN"

definition fabs :: "pyfloat \<Rightarrow> pyfloat" where
  "fabs x = (if signbit x then float_neg x else x)"

text \<open>
  The operations of the C type \<^verbatim>\<open>double\<close>: the exact result, rounded, with the special
  values of IEEE 754.
\<close>

definition c_add :: "pyfloat \<Rightarrow> pyfloat \<Rightarrow> pyfloat" where
  "c_add x y =
     (if x = NaN \<or> y = NaN then NaN
      else if is_inf x then (if is_inf y \<and> x \<noteq> y then NaN else x)
      else if is_inf y then y
      else if x = NegZero then y
      else if y = NegZero then x
      else (let e = min (expo x) (expo y)
            in dyadic (mant x * 2 ^ nat (expo x - e) + mant y * 2 ^ nat (expo y - e)) e))"

definition c_sub :: "pyfloat \<Rightarrow> pyfloat \<Rightarrow> pyfloat" where
  "c_sub x y = c_add x (float_neg y)"

definition c_mul :: "pyfloat \<Rightarrow> pyfloat \<Rightarrow> pyfloat" where
  "c_mul x y =
     (if x = NaN \<or> y = NaN then NaN
      else if is_inf x \<or> is_inf y
        then (if is_zero x \<or> is_zero y then NaN else inf (signbit x \<noteq> signbit y))
      else if is_zero x \<or> is_zero y then zero (signbit x \<noteq> signbit y)
      else dyadic (mant x * mant y) (expo x + expo y))"

definition c_div :: "pyfloat \<Rightarrow> pyfloat \<Rightarrow> pyfloat" where
  "c_div x y =
     (if x = NaN \<or> y = NaN then NaN
      else if is_inf x then (if is_inf y then NaN else inf (signbit x \<noteq> signbit y))
      else if is_inf y then zero (signbit x \<noteq> signbit y)
      else if is_zero y then (if is_zero x then NaN else inf (signbit x \<noteq> signbit y))
      else if is_zero x then zero (signbit x \<noteq> signbit y)
      else (let n = mant x * 2 ^ nat (expo x - expo y);
                d = mant y * 2 ^ nat (expo y - expo x)
            in if 0 < d then round_ratio n d else round_ratio (- n) (- d)))"

definition c_fmod :: "pyfloat \<Rightarrow> pyfloat \<Rightarrow> pyfloat" where
  "c_fmod x y =
     (if x = NaN \<or> y = NaN \<or> is_inf x \<or> is_zero y then NaN
      else if is_inf y \<or> is_zero x then x
      else (let e = min (expo x) (expo y);
                X = mant x * 2 ^ nat (expo x - e);
                Y = mant y * 2 ^ nat (expo y - e);
                r = \<bar>X\<bar> mod \<bar>Y\<bar>
            in if r = 0 then zero (signbit x)
               else dyadic (if X < 0 then - r else r) e))"


subsection \<open>Comparison of floats\<close>

definition float_le :: "pyfloat \<Rightarrow> pyfloat \<Rightarrow> bool" where
  "float_le x y =
     (if x = NaN \<or> y = NaN then False
      else if x = NInf \<or> y = PInf then True
      else if x = PInf \<or> y = NInf then False
      else (let e = min (expo x) (expo y)
            in mant x * 2 ^ nat (expo x - e) \<le> mant y * 2 ^ nat (expo y - e)))"

definition is_integer :: "pyfloat \<Rightarrow> bool" where
  "is_integer x = (case x of Fin m e \<Rightarrow> m = 0 \<or> 0 \<le> e | NegZero \<Rightarrow> True | _ \<Rightarrow> False)"

definition is_odd_integer :: "pyfloat \<Rightarrow> bool" where
  "is_odd_integer x = (case x of Fin m e \<Rightarrow> odd m \<and> e = 0 | _ \<Rightarrow> False)"

subsection \<open>The C library\<close>

text \<open>
  Two functions are left uninterpreted, since their last digit depends on the platform: the
  function \<^verbatim>\<open>pow\<close> of the C library, which CPython calls on a finite positive base other than
  one and a finite exponent other than zero, and the polar form of the complex power
  (\<^verbatim>\<open>hypot\<close>, \<^verbatim>\<open>atan2\<close>, \<^verbatim>\<open>pow\<close>, \<^verbatim>\<open>exp\<close>, \<^verbatim>\<open>log\<close>, \<^verbatim>\<open>sin\<close>, \<^verbatim>\<open>cos\<close>).  Every theorem below holds whatever
  these two functions return.
\<close>

definition libm_pow :: "pyfloat \<Rightarrow> pyfloat \<Rightarrow> pyfloat" where
  "libm_pow = undefined"

definition libm_cpow :: "pyfloat \<times> pyfloat \<Rightarrow> pyfloat \<times> pyfloat \<Rightarrow> pyfloat \<times> pyfloat" where
  "libm_cpow = undefined"

subsection \<open>Conversions\<close>

text \<open>
  The coercion of an operand to a float (\<^verbatim>\<open>CONVERT_TO_DOUBLE\<close>) or to a complex number
  (\<^verbatim>\<open>TO_COMPLEX\<close>): an int is rounded, and raises \<^verbatim>\<open>OverflowError\<close> beyond the range of a float.
  The left operand is coerced first.
\<close>

definition quoted :: "string \<Rightarrow> string" where
  "quoted s = CHR 0x27 # s @ [CHR 0x27]"

definition and_then :: "error + 'a \<Rightarrow> ('a \<Rightarrow> error + 'b) \<Rightarrow> error + 'b" where
  "and_then r f = (case r of Inl e \<Rightarrow> Inl e | Inr v \<Rightarrow> f v)"

definition int_as_double :: "int \<Rightarrow> error + pyfloat" where
  "int_as_double i =
     (let f = round_ratio i 1
      in if is_inf f then Inl (Exception OverflowError ''int too large to convert to float'')
         else Inr f)"

fun as_double :: "pyval \<Rightarrow> error + pyfloat" where
  "as_double (VInt i) = int_as_double i"
| "as_double (VFloat f) = Inr f"
| "as_double (VComplex re im) = Inl (Exception TypeError ''must be real number, not complex'')"

fun as_complex :: "pyval \<Rightarrow> error + pyfloat \<times> pyfloat" where
  "as_complex (VInt i) = and_then (int_as_double i) (\<lambda>f. Inr (f, Fin 0 0))"
| "as_complex (VFloat f) = Inr (f, Fin 0 0)"
| "as_complex (VComplex re im) = Inr (re, im)"

fun is_complex :: "pyval \<Rightarrow> bool" where
  "is_complex (VComplex re im) = True"
| "is_complex _ = False"

fun type_name :: "pyval \<Rightarrow> string" where
  "type_name (VInt i) = ''int''"
| "type_name (VFloat f) = ''float''"
| "type_name (VComplex re im) = ''complex''"

subsection \<open>Complex arithmetic\<close>

text \<open>
  The functions of \<^verbatim>\<open>complexobject.c\<close>, on pairs of floats, each operation rounded on its own.
\<close>

definition c_sum :: "pyfloat \<times> pyfloat \<Rightarrow> pyfloat \<times> pyfloat \<Rightarrow> pyfloat \<times> pyfloat" where
  "c_sum a b = (c_add (fst a) (fst b), c_add (snd a) (snd b))"

definition c_diff :: "pyfloat \<times> pyfloat \<Rightarrow> pyfloat \<times> pyfloat \<Rightarrow> pyfloat \<times> pyfloat" where
  "c_diff a b = (c_sub (fst a) (fst b), c_sub (snd a) (snd b))"

definition c_prod :: "pyfloat \<times> pyfloat \<Rightarrow> pyfloat \<times> pyfloat \<Rightarrow> pyfloat \<times> pyfloat" where
  "c_prod a b =
     (c_sub (c_mul (fst a) (fst b)) (c_mul (snd a) (snd b)),
      c_add (c_mul (fst a) (snd b)) (c_mul (snd a) (fst b)))"

text \<open>The quotient returns \<open>None\<close> where the C code sets \<open>errno\<close> to \<open>EDOM\<close>.\<close>

definition c_quot :: "pyfloat \<times> pyfloat \<Rightarrow> pyfloat \<times> pyfloat \<Rightarrow> (pyfloat \<times> pyfloat) option" where
  "c_quot a b =
     (let abs_breal = (if lt0 (fst b) then float_neg (fst b) else fst b);
          abs_bimag = (if lt0 (snd b) then float_neg (snd b) else snd b)
      in if float_le abs_bimag abs_breal then
           (if is_zero abs_breal then None
            else (let ratio = c_div (snd b) (fst b);
                      denom = c_add (fst b) (c_mul (snd b) ratio)
                  in Some (c_div (c_add (fst a) (c_mul (snd a) ratio)) denom,
                           c_div (c_sub (snd a) (c_mul (fst a) ratio)) denom)))
         else if float_le abs_breal abs_bimag then
           (let ratio = c_div (fst b) (snd b);
                denom = c_add (c_mul (fst b) ratio) (snd b)
            in Some (c_div (c_add (c_mul (fst a) ratio) (snd a)) denom,
                     c_div (c_sub (c_mul (snd a) ratio) (fst a)) denom))
         else Some (NaN, NaN))"

function c_powu_loop ::
  "nat \<Rightarrow> nat \<Rightarrow> pyfloat \<times> pyfloat \<Rightarrow> pyfloat \<times> pyfloat \<Rightarrow> pyfloat \<times> pyfloat" where
  "c_powu_loop n msk r p =
     (if 0 < msk \<and> msk \<le> n
      then c_powu_loop n (2 * msk) (if odd (n div msk) then c_prod r p else r) (c_prod p p)
      else r)"
  by pat_completeness auto
termination
  by (relation "measure (\<lambda>(n, msk, r, p). Suc n - msk)") auto

definition c_powu :: "pyfloat \<times> pyfloat \<Rightarrow> nat \<Rightarrow> pyfloat \<times> pyfloat" where
  "c_powu x n = c_powu_loop n 1 (Fin 1 0, Fin 0 0) x"

definition c_powi :: "pyfloat \<times> pyfloat \<Rightarrow> int \<Rightarrow> (pyfloat \<times> pyfloat) option" where
  "c_powi x n = (if 0 < n then Some (c_powu x (nat n))
                 else c_quot (Fin 1 0, Fin 0 0) (c_powu x (nat (- n))))"

definition c_pow :: "pyfloat \<times> pyfloat \<Rightarrow> pyfloat \<times> pyfloat \<Rightarrow> (pyfloat \<times> pyfloat) option" where
  "c_pow a b =
     (if is_zero (fst b) \<and> is_zero (snd b) then Some (Fin 1 0, Fin 0 0)
      else if is_zero (fst a) \<and> is_zero (snd a) then
        (if \<not> is_zero (snd b) \<or> lt0 (fst b) then None else Some (Fin 0 0, Fin 0 0))
      else Some (libm_cpow a b))"

definition complex_pow :: "pyfloat \<times> pyfloat \<Rightarrow> pyfloat \<times> pyfloat \<Rightarrow> error + pyval" where
  "complex_pow a b =
     (let p = (if is_zero (snd b) \<and> is_integer (fst b) \<and> float_le (fabs (fst b)) (Fin 25 2)
               then c_powi a (mant (fst b) * 2 ^ nat (expo (fst b)))
               else c_pow a b)
      in case p of
           None \<Rightarrow> Inl (Exception ZeroDivisionError ''0.0 to a negative or complex power'')
         | Some (re, im) \<Rightarrow>
             if is_inf re \<or> is_inf im
             then Inl (Exception OverflowError ''complex exponentiation'')
             else Inr (VComplex re im))"

definition complex_div :: "pyfloat \<times> pyfloat \<Rightarrow> pyfloat \<times> pyfloat \<Rightarrow> error + pyval" where
  "complex_div a b =
     (case c_quot a b of
        None \<Rightarrow> Inl (Exception ZeroDivisionError ''complex division by zero'')
      | Some (re, im) \<Rightarrow> Inr (VComplex re im))"

subsection \<open>Float arithmetic\<close>

text \<open>
  Division and remainder test the divisor first; the remainder has the sign of the divisor;
  the power treats the special values itself before it calls the C library, and becomes a
  complex power for a negative base with a fractional exponent.
\<close>

definition float_div :: "pyfloat \<Rightarrow> pyfloat \<Rightarrow> error + pyval" where
  "float_div a b =
     (if is_zero b then Inl (Exception ZeroDivisionError ''float division by zero'')
      else Inr (VFloat (c_div a b)))"

definition float_rem :: "pyfloat \<Rightarrow> pyfloat \<Rightarrow> error + pyval" where
  "float_rem vx wx =
     (if is_zero wx then Inl (Exception ZeroDivisionError ''float modulo'')
      else (let m = c_fmod vx wx
            in Inr (VFloat (if \<not> is_zero m
                            then (if lt0 wx \<noteq> lt0 m then c_add m wx else m)
                            else zero (signbit wx)))))"

definition float_pow :: "pyfloat \<Rightarrow> pyfloat \<Rightarrow> error + pyval" where
  "float_pow iv iw =
     (if is_zero iw then Inr (VFloat (Fin 1 0))
      else if iv = NaN then Inr (VFloat iv)
      else if iw = NaN then Inr (VFloat (if iv = Fin 1 0 then Fin 1 0 else iw))
      else if is_inf iw then
        (if fabs iv = Fin 1 0 then Inr (VFloat (Fin 1 0))
         else if gt0 iw = (\<not> float_le (fabs iv) (Fin 1 0)) then Inr (VFloat PInf)
         else Inr (VFloat (Fin 0 0)))
      else if is_inf iv then
        (if gt0 iw then Inr (VFloat (if is_odd_integer iw then iv else fabs iv))
         else Inr (VFloat (if is_odd_integer iw then zero (signbit iv) else Fin 0 0)))
      else if is_zero iv then
        (if lt0 iw
         then Inl (Exception ZeroDivisionError ''0.0 cannot be raised to a negative power'')
         else Inr (VFloat (if is_odd_integer iw then iv else Fin 0 0)))
      else if lt0 iv \<and> \<not> is_integer iw then complex_pow (iv, Fin 0 0) (iw, Fin 0 0)
      else (let negate_result = (lt0 iv \<and> is_odd_integer iw);
                av = fabs iv
            in if av = Fin 1 0 then Inr (VFloat (if negate_result then Fin (- 1) 0 else Fin 1 0))
               else (let ix = libm_pow av iw
                     in if is_inf ix
                        then Inl (Exception OverflowError
                               (''(34, '' @ quoted ''Numerical result out of range'' @ '')''))
                        else Inr (VFloat (if negate_result then float_neg ix else ix)))))"

subsection \<open>Integer arithmetic\<close>

text \<open>
  The quotient of two ints is the float nearest to the exact quotient; the remainder is
  that of the floor division, which is \<open>mod\<close> on \<open>int\<close>; a negative exponent makes the power
  a power of floats.
\<close>

definition long_true_divide :: "int \<Rightarrow> int \<Rightarrow> error + pyval" where
  "long_true_divide a b =
     (if b = 0 then Inl (Exception ZeroDivisionError ''division by zero'')
      else if a = 0 then Inr (VFloat (zero (b < 0)))
      else (let f = (if 0 < b then round_ratio a b else round_ratio (- a) (- b))
            in if is_inf f
               then Inl (Exception OverflowError ''integer division result too large for a float'')
               else Inr (VFloat f)))"

definition long_mod :: "int \<Rightarrow> int \<Rightarrow> error + pyval" where
  "long_mod a b =
     (if b = 0 then Inl (Exception ZeroDivisionError ''integer modulo by zero'')
      else Inr (VInt (a mod b)))"

definition long_pow :: "int \<Rightarrow> int \<Rightarrow> error + pyval" where
  "long_pow a b =
     (if b < 0
      then and_then (int_as_double a) (\<lambda>iv. and_then (int_as_double b) (\<lambda>iw. float_pow iv iw))
      else Inr (VInt (a ^ nat b)))"

subsection \<open>The functions of the \<open>operator\<close> module\<close>

text \<open>
  \<^verbatim>\<open>op.add\<close>, \<^verbatim>\<open>op.sub\<close>, \<^verbatim>\<open>op.mul\<close>, \<^verbatim>\<open>op.truediv\<close>, \<^verbatim>\<open>op.pow\<close>, \<^verbatim>\<open>op.mod\<close>, \<^verbatim>\<open>op.neg\<close> and \<^verbatim>\<open>op.pos\<close> on
  the three types of numbers: two ints are handled by the int, any complex operand makes
  the operation complex, and the operation is one of floats otherwise.
\<close>

definition with_doubles ::
  "(pyfloat \<Rightarrow> pyfloat \<Rightarrow> error + pyval) \<Rightarrow> pyval \<Rightarrow> pyval \<Rightarrow> error + pyval" where
  "with_doubles f v w = and_then (as_double v) (\<lambda>a. and_then (as_double w) (\<lambda>b. f a b))"

definition with_complexes ::
  "(pyfloat \<times> pyfloat \<Rightarrow> pyfloat \<times> pyfloat \<Rightarrow> error + pyval) \<Rightarrow> pyval \<Rightarrow> pyval \<Rightarrow> error + pyval" where
  "with_complexes f v w = and_then (as_complex v) (\<lambda>a. and_then (as_complex w) (\<lambda>b. f a b))"

definition mk_complex :: "pyfloat \<times> pyfloat \<Rightarrow> error + pyval" where
  "mk_complex c = Inr (VComplex (fst c) (snd c))"

fun op_add :: "pyval \<Rightarrow> pyval \<Rightarrow> error + pyval" where
  "op_add (VInt a) (VInt b) = Inr (VInt (a + b))"
| "op_add v w =
     (if is_complex v \<or> is_complex w then with_complexes (\<lambda>a b. mk_complex (c_sum a b)) v w
      else with_doubles (\<lambda>a b. Inr (VFloat (c_add a b))) v w)"

fun op_sub :: "pyval \<Rightarrow> pyval \<Rightarrow> error + pyval" where
  "op_sub (VInt a) (VInt b) = Inr (VInt (a - b))"
| "op_sub v w =
     (if is_complex v \<or> is_complex w then with_complexes (\<lambda>a b. mk_complex (c_diff a b)) v w
      else with_doubles (\<lambda>a b. Inr (VFloat (c_sub a b))) v w)"

fun op_mul :: "pyval \<Rightarrow> pyval \<Rightarrow> error + pyval" where
  "op_mul (VInt a) (VInt b) = Inr (VInt (a * b))"
| "op_mul v w =
     (if is_complex v \<or> is_complex w then with_complexes (\<lambda>a b. mk_complex (c_prod a b)) v w
      else with_doubles (\<lambda>a b. Inr (VFloat (c_mul a b))) v w)"

fun op_truediv :: "pyval \<Rightarrow> pyval \<Rightarrow> error + pyval" where
  "op_truediv (VInt a) (VInt b) = long_true_divide a b"
| "op_truediv v w =
     (if is_complex v \<or> is_complex w then with_complexes complex_div v w
      else with_doubles float_div v w)"

fun op_pow :: "pyval \<Rightarrow> pyval \<Rightarrow> error + pyval" where
  "op_pow (VInt a) (VInt b) = long_pow a b"
| "op_pow v w =
     (if is_complex v \<or> is_complex w then with_complexes complex_pow v w
      else with_doubles float_pow v w)"

fun op_mod :: "pyval \<Rightarrow> pyval \<Rightarrow> error + pyval" where
  "op_mod (VInt a) (VInt b) = long_mod a b"
| "op_mod v w =
     (if is_complex v \<or> is_complex w
      then Inl (Exception TypeError
             (''unsupported operand type(s) for %: '' @ quoted (type_name v) @ '' and ''
                @ quoted (type_name w)))
      else with_doubles float_rem v w)"

fun op_neg :: "pyval \<Rightarrow> error + pyval" where
  "op_neg (VInt a) = Inr (VInt (- a))"
| "op_neg (VFloat f) = Inr (VFloat (float_neg f))"
| "op_neg (VComplex re im) = Inr (VComplex (float_neg re) (float_neg im))"

fun op_pos :: "pyval \<Rightarrow> error + pyval" where
  "op_pos v = Inr v"

section \<open>The syntax tree\<close>

text \<open>
  The nodes of Python's \<^verbatim>\<open>ast\<close> module that \<^verbatim>\<open>_eval\<close> tells apart.  \<open>Num\<close> is a
  numeric literal (an int, a float or an imaginary literal: \<^verbatim>\<open>isinstance(node, ast.Num)\<close>
  holds for constants of these three types and not for booleans), \<open>Other\<close> is a node
  of any other class, carrying the name of the class.  The operator tags are those of
  the abstract grammar; \<open>Pow_op\<close> and \<open>Not_op\<close> stand for \<^verbatim>\<open>ast.Pow\<close> and \<^verbatim>\<open>ast.Not\<close>.
\<close>

datatype operator = Add | Sub | Mult | MatMult | Div | Mod | Pow_op | LShift | RShift
  | BitOr | BitXor | BitAnd | FloorDiv

datatype unaryop = Invert | Not_op | UAdd | USub

datatype node =
    Num pyval
  | Expression node
  | BinOp node operator node
  | UnaryOp unaryop node
  | Other string

fun operator_name :: "operator \<Rightarrow> string" where
  "operator_name Add = ''Add''"
| "operator_name Sub = ''Sub''"
| "operator_name Mult = ''Mult''"
| "operator_name MatMult = ''MatMult''"
| "operator_name Div = ''Div''"
| "operator_name Mod = ''Mod''"
| "operator_name Pow_op = ''Pow''"
| "operator_name LShift = ''LShift''"
| "operator_name RShift = ''RShift''"
| "operator_name BitOr = ''BitOr''"
| "operator_name BitXor = ''BitXor''"
| "operator_name BitAnd = ''BitAnd''"
| "operator_name FloorDiv = ''FloorDiv''"

fun unaryop_name :: "unaryop \<Rightarrow> string" where
  "unaryop_name Invert = ''Invert''"
| "unaryop_name Not_op = ''Not''"
| "unaryop_name UAdd = ''UAdd''"
| "unaryop_name USub = ''USub''"

text \<open>The type of an operator node, as \<^verbatim>\<open>type(node.op)\<close> returns it: the key of the table.\<close>

datatype op_type = BinTag operator | UnTag unaryop

fun class_name :: "op_type \<Rightarrow> string" where
  "class_name (BinTag b) = operator_name b"
| "class_name (UnTag u) = unaryop_name u"

definition class_repr :: "string \<Rightarrow> string" where
  "class_repr name = ''<class '' @ quoted (''ast.'' @ name) @ ''>''"

section \<open>The allow-list and the evaluator\<close>

text \<open>
  The values of the table are Python callables of two arguments or of one.  Calling one
  with the wrong number of arguments raises \<^verbatim>\<open>TypeError\<close>.
\<close>

datatype callable =
    Binary "pyval \<Rightarrow> pyval \<Rightarrow> error + pyval"
  | Unary "pyval \<Rightarrow> error + pyval"

definition ALLOWED_OPERATORS :: "(op_type \<times> callable) list" where
  "ALLOWED_OPERATORS =
     [(BinTag Add, Binary op_add),
      (BinTag Sub, Binary op_sub),
      (BinTag Mult, Binary op_mul),
      (BinTag Div, Binary op_truediv),
      (BinTag Pow_op, Binary op_pow),
      (BinTag Mod, Binary op_mod),
      (UnTag USub, Unary op_neg),
      (UnTag UAdd, Unary op_pos)]"

fun call2 :: "callable \<Rightarrow> pyval \<Rightarrow> pyval \<Rightarrow> error + pyval" where
  "call2 (Binary f) a b = f a b"
| "call2 (Unary f) a b = Inl (Exception TypeError ''expected 1 argument, got 2'')"

fun call1 :: "callable \<Rightarrow> pyval \<Rightarrow> error + pyval" where
  "call1 (Unary f) a = f a"
| "call1 (Binary f) a = Inl (Exception TypeError ''expected 2 arguments, got 1'')"

text \<open>
  \<^verbatim>\<open>_eval\<close>, the inner function of \<^verbatim>\<open>safe_eval\<close>.  The branches are in the order of the
  source; a \<^verbatim>\<open>raise\<close> is an \<open>Inl\<close>, and an exception of an operand leaves the function
  at once.  The interpreter's recursion limit is not modelled.
\<close>

fun eval_node :: "node \<Rightarrow> error + pyval" where
  "eval_node (Num n) = Inr n"
| "eval_node (Expression body) = eval_node body"
| "eval_node (BinOp left opr right) =
     (case eval_node left of
        Inl e \<Rightarrow> Inl e
      | Inr l \<Rightarrow>
          (case eval_node right of
             Inl e \<Rightarrow> Inl e
           | Inr r \<Rightarrow>
               (case map_of ALLOWED_OPERATORS (BinTag opr) of
                  Some f \<Rightarrow> call2 f l r
                | None \<Rightarrow> Inl (Exception ValueError
                    (''Operator '' @ class_repr (class_name (BinTag opr)) @ '' not allowed'')))))"
| "eval_node (UnaryOp opr operand) =
     (case eval_node operand of
        Inl e \<Rightarrow> Inl e
      | Inr v \<Rightarrow>
          (case map_of ALLOWED_OPERATORS (UnTag opr) of
             Some f \<Rightarrow> call1 f v
           | None \<Rightarrow> Inl (Exception ValueError
               (''Unary operator '' @ class_repr (class_name (UnTag opr)) @ '' not allowed''))))"
| "eval_node (Other cls) =
     Inl (Exception ValueError (''Unsupported expression: '' @ class_repr cls))"

text \<open>
  \<^verbatim>\<open>safe_eval\<close> parses with \<^verbatim>\<open>ast.parse(expr, mode='eval')\<close>, a function of the standard
  library and a parameter here, and evaluates the tree.
\<close>

definition safe_eval :: "(string \<Rightarrow> error + node) \<Rightarrow> string \<Rightarrow> error + pyval" where
  "safe_eval ast_parse expr =
     (case ast_parse expr of Inl e \<Rightarrow> Inl e | Inr parsed \<Rightarrow> eval_node parsed)"

section \<open>The parser\<close>

text \<open>
  \<^verbatim>\<open>ast.parse(expr, mode='eval')\<close> on the arithmetic fragment of Python's grammar: one line
  of ASCII text made of decimal literals (an integer, a float with a point or an exponent,
  an imaginary literal), names, string literals without escapes, the operators
  \<^verbatim>\<open>+ - * / // % ** ~\<close>, parentheses and calls.  The grammar is Python's:
  \<^verbatim>\<open>
  sum:     sum ('+'|'-') term | term
  term:    term ('*'|'/'|'//'|'%') factor | factor
  factor:  ('+'|'-'|'~') factor | power
  power:   primary '**' factor | primary
  primary: primary '(' [args] ')' | atom
  atom:    NUMBER | NAME | STRING+ | '(' sum ')'
  \<close>
  A name, a string and a call become \<open>Other\<close> nodes of their class.  An input outside the
  fragment (underscores in literals, other bases, comparisons, tuples, keywords, several
  lines) is answered with \<^verbatim>\<open>SyntaxError\<close>; the parser is used below on inputs of the fragment
  only, and every statement about all inputs takes the parser as a parameter.  A syntax
  error carries the general message of Python ("invalid syntax"), not the particular
  messages of its tokenizer; an input that starts with a blank is an indentation error.
\<close>

datatype token = NUMBER pyval | NAME string | STRING | OP string

definition is_digit :: "char \<Rightarrow> bool" where
  "is_digit c = (c \<in> set ''0123456789'')"

definition is_name_start :: "char \<Rightarrow> bool" where
  "is_name_start c = (c \<in> set ''abcdefghijklmnopqrstuvwxyzABCDEFGHIJKLMNOPQRSTUVWXYZ_'')"

definition is_name_char :: "char \<Rightarrow> bool" where
  "is_name_char c = (is_name_start c \<or> is_digit c)"

definition decimal :: "string \<Rightarrow> int" where
  "decimal ds = foldl (\<lambda>n c. 10 * n + (int (of_char c) - 48)) 0 ds"

definition decimal_float :: "int \<Rightarrow> int \<Rightarrow> pyfloat" where
  "decimal_float n x = (if 0 \<le> x then round_ratio (n * 10 ^ nat x) 1
                        else round_ratio n (10 ^ nat (- x)))"

definition lex_exponent :: "string \<Rightarrow> (int \<times> string) option" where
  "lex_exponent s =
     (case s of
        [] \<Rightarrow> None
      | e # t \<Rightarrow>
          if e = CHR ''e'' \<or> e = CHR ''E'' then
            (let neg = (t \<noteq> [] \<and> hd t = CHR ''-'');
                 t' = (if t \<noteq> [] \<and> (hd t = CHR ''-'' \<or> hd t = CHR ''+'') then tl t else t);
                 ds = takeWhile is_digit t'
             in if ds = [] then None
                else Some (if neg then - decimal ds else decimal ds, dropWhile is_digit t'))
          else None)"

definition lex_number :: "string \<Rightarrow> (token \<times> string) option" where
  "lex_number s =
     (let ip = takeWhile is_digit s;
          r1 = dropWhile is_digit s;
          has_frac = (r1 \<noteq> [] \<and> hd r1 = CHR ''.'');
          fp = (if has_frac then takeWhile is_digit (tl r1) else []);
          r2 = (if has_frac then dropWhile is_digit (tl r1) else r1);
          ex = lex_exponent r2;
          x = (case ex of None \<Rightarrow> 0 | Some (n, r) \<Rightarrow> n);
          r3 = (case ex of None \<Rightarrow> r2 | Some (n, r) \<Rightarrow> r);
          imag = (r3 \<noteq> [] \<and> (hd r3 = CHR ''j'' \<or> hd r3 = CHR ''J''));
          r4 = (if imag then tl r3 else r3);
          f = decimal_float (decimal (ip @ fp)) (x - int (length fp))
      in if imag then Some (NUMBER (VComplex (Fin 0 0) f), r4)
         else if has_frac \<or> ex \<noteq> None then Some (NUMBER (VFloat f), r4)
         else if 1 < length ip \<and> hd ip = CHR ''0'' \<and> decimal ip \<noteq> 0 then None
         else Some (NUMBER (VInt (decimal ip)), r4))"

function tokenize :: "string \<Rightarrow> token list option" where
  "tokenize [] = Some []"
| "tokenize (c # cs) =
     (if c = CHR '' '' \<or> c = CHR 0x09 then tokenize cs
      else if is_digit c \<or> (c = CHR ''.'' \<and> cs \<noteq> [] \<and> is_digit (hd cs)) then
        (case lex_number (c # cs) of
           None \<Rightarrow> None
         | Some (t, r) \<Rightarrow>
             if length r < length (c # cs) then map_option ((#) t) (tokenize r) else None)
      else if is_name_start c then
        map_option ((#) (NAME (c # takeWhile is_name_char cs))) (tokenize (dropWhile is_name_char cs))
      else if c = CHR 0x27 \<or> c = CHR 0x22 then
        (let body = takeWhile (\<lambda>x. x \<noteq> c) cs; r = dropWhile (\<lambda>x. x \<noteq> c) cs
         in if r = [] \<or> CHR 0x5C \<in> set body \<or> CHR 0x0A \<in> set body then None
            else map_option ((#) STRING) (tokenize (tl r)))
      else if c = CHR ''*'' \<and> cs \<noteq> [] \<and> hd cs = CHR ''*'' then
        map_option ((#) (OP ''**'')) (tokenize (tl cs))
      else if c = CHR ''/'' \<and> cs \<noteq> [] \<and> hd cs = CHR ''/'' then
        map_option ((#) (OP ''//'')) (tokenize (tl cs))
      else if c \<in> set ''+-*/%()~,'' then map_option ((#) (OP [c])) (tokenize cs)
      else None)"
  by pat_completeness auto
termination
  by (relation "measure length")
     (auto simp: less_Suc_eq_le length_dropWhile_le intro: le_trans [OF diff_le_self length_dropWhile_le])


definition py_keywords :: "string list" where
  "py_keywords = [''and'', ''as'', ''assert'', ''async'', ''await'', ''break'', ''class'',
     ''continue'', ''def'', ''del'', ''elif'', ''else'', ''except'', ''finally'', ''for'',
     ''from'', ''global'', ''if'', ''import'', ''in'', ''is'', ''lambda'', ''nonlocal'',
     ''not'', ''or'', ''pass'', ''raise'', ''return'', ''try'', ''while'', ''with'', ''yield'']"

definition sum_op :: "string \<Rightarrow> operator option" where
  "sum_op s = (if s = ''+'' then Some Add else if s = ''-'' then Some Sub else None)"

definition term_op :: "string \<Rightarrow> operator option" where
  "term_op s = (if s = ''*'' then Some Mult else if s = ''/'' then Some Div
                else if s = ''//'' then Some FloorDiv else if s = ''%'' then Some Mod else None)"

definition factor_op :: "string \<Rightarrow> unaryop option" where
  "factor_op s = (if s = ''+'' then Some UAdd else if s = ''-'' then Some USub
                  else if s = ''~'' then Some Invert else None)"

function (sequential) p_sum :: "token list \<Rightarrow> (node \<times> token list) option"
  and p_sum_rest :: "node \<Rightarrow> token list \<Rightarrow> (node \<times> token list) option"
  and p_term :: "token list \<Rightarrow> (node \<times> token list) option"
  and p_term_rest :: "node \<Rightarrow> token list \<Rightarrow> (node \<times> token list) option"
  and p_factor :: "token list \<Rightarrow> (node \<times> token list) option"
  and p_power :: "token list \<Rightarrow> (node \<times> token list) option"
  and p_primary :: "token list \<Rightarrow> (node \<times> token list) option"
  and p_trailers :: "node \<Rightarrow> token list \<Rightarrow> (node \<times> token list) option"
  and p_args :: "token list \<Rightarrow> token list option"
  and p_atom :: "token list \<Rightarrow> (node \<times> token list) option"
where
  "p_sum ts =
     (case p_term ts of
        None \<Rightarrow> None
      | Some (l, r) \<Rightarrow> if length r < length ts then p_sum_rest l r else None)"
| "p_sum_rest l [] = Some (l, [])"
| "p_sum_rest l (t # r) =
     (case t of
        OP s \<Rightarrow>
          (case sum_op s of
             None \<Rightarrow> Some (l, t # r)
           | Some opr \<Rightarrow>
               (case p_term r of
                  None \<Rightarrow> None
                | Some (x, r') \<Rightarrow>
                    if length r' \<le> length r then p_sum_rest (BinOp l opr x) r' else None))
      | _ \<Rightarrow> Some (l, t # r))"
| "p_term ts =
     (case p_factor ts of
        None \<Rightarrow> None
      | Some (l, r) \<Rightarrow> if length r < length ts then p_term_rest l r else None)"
| "p_term_rest l [] = Some (l, [])"
| "p_term_rest l (t # r) =
     (case t of
        OP s \<Rightarrow>
          (case term_op s of
             None \<Rightarrow> Some (l, t # r)
           | Some opr \<Rightarrow>
               (case p_factor r of
                  None \<Rightarrow> None
                | Some (x, r') \<Rightarrow>
                    if length r' \<le> length r then p_term_rest (BinOp l opr x) r' else None))
      | _ \<Rightarrow> Some (l, t # r))"
| "p_factor [] = None"
| "p_factor (t # r) =
     (case (case t of OP s \<Rightarrow> factor_op s | _ \<Rightarrow> None) of
        Some u \<Rightarrow> map_option (\<lambda>(x, r'). (UnaryOp u x, r')) (p_factor r)
      | None \<Rightarrow> p_power (t # r))"
| "p_power ts =
     (case p_primary ts of
        None \<Rightarrow> None
      | Some (b, r) \<Rightarrow>
          (case r of
             OP s # r' \<Rightarrow>
               if s = ''**'' then
                 (if length r \<le> length ts
                  then map_option (\<lambda>(x, r''). (BinOp b Pow_op x, r'')) (p_factor r')
                  else None)
               else Some (b, r)
           | _ \<Rightarrow> Some (b, r)))"
| "p_primary ts =
     (case p_atom ts of
        None \<Rightarrow> None
      | Some (a, r) \<Rightarrow> if length r < length ts then p_trailers a r else None)"
| "p_trailers a [] = Some (a, [])"
| "p_trailers a (t # r) =
     (if t = OP ''('' then
        (case p_args r of
           None \<Rightarrow> None
         | Some r' \<Rightarrow> if length r' \<le> length r then p_trailers (Other ''Call'') r' else None)
      else Some (a, t # r))"
| "p_args [] = None"
| "p_args (t # r) =
     (if t = OP '')'' then Some r
      else (case p_sum (t # r) of
              Some (a, t' # r') \<Rightarrow>
                if t' = OP '')'' then Some r'
                else if t' = OP '','' \<and> length r' \<le> length r then p_args r'
                else None
            | _ \<Rightarrow> None))"
| "p_atom [] = None"
| "p_atom (t # r) =
     (case t of
        NUMBER v \<Rightarrow> Some (Num v, r)
      | NAME n \<Rightarrow>
          if n \<in> set [''True'', ''False'', ''None''] then Some (Other ''Constant'', r)
          else if n \<in> set py_keywords then None
          else Some (Other ''Name'', r)
      | STRING \<Rightarrow> Some (Other ''Constant'', dropWhile (\<lambda>x. x = STRING) r)
      | OP s \<Rightarrow>
          if s = ''('' then
            (case p_sum r of
               Some (e, t' # r') \<Rightarrow> if t' = OP '')'' then Some (e, r') else None
             | _ \<Rightarrow> None)
          else None)"

  by pat_completeness auto

termination
  by (relation "measure
        (case_sum
          (case_sum
            (case_sum (\<lambda>ts. 16 * length ts + 7) (\<lambda>(l, ts). 16 * length ts))
            (case_sum (\<lambda>ts. 16 * length ts + 6)
              (case_sum (\<lambda>(l, ts). 16 * length ts) (\<lambda>ts. 16 * length ts + 5))))
          (case_sum
            (case_sum (\<lambda>ts. 16 * length ts + 4) (\<lambda>ts. 16 * length ts + 3))
            (case_sum (\<lambda>(a, ts). 16 * length ts)
              (case_sum (\<lambda>ts. 16 * length ts + 8) (\<lambda>ts. 16 * length ts + 2)))))")
     auto

definition py_parse :: "string \<Rightarrow> error + node" where
  "py_parse s =
     (if s = [] then Inl (Exception SyntaxError ''invalid syntax (<unknown>, line 0)'')
      else if hd s = CHR '' '' \<or> hd s = CHR 0x09
      then Inl (Exception IndentationError ''unexpected indent (<unknown>, line 1)'')
      else (case tokenize s of
              None \<Rightarrow> Inl (Exception SyntaxError ''invalid syntax (<unknown>, line 1)'')
            | Some ts \<Rightarrow>
                (case p_sum ts of
                   Some (e, []) \<Rightarrow> Inr (Expression e)
                 | _ \<Rightarrow> Inl (Exception SyntaxError ''invalid syntax (<unknown>, line 1)''))))"

section \<open>The request handler\<close>

text \<open>
  The body of a request as \<^verbatim>\<open>request.get_json()\<close> returns it: a JSON value, \<open>JNull\<close> for
  Python's \<^verbatim>\<open>None\<close>.  An object is the list of its members in the order of the document; a
  later member of the same name wins, as in a Python dict.
\<close>

datatype json =
    JNull
  | JBool bool
  | JInt int
  | JFloat pyfloat
  | JString string
  | JArray "json list"
  | JObject "(string \<times> json) list"

fun truthy :: "json \<Rightarrow> bool" where
  "truthy JNull = False"
| "truthy (JBool b) = b"
| "truthy (JInt i) = (i \<noteq> 0)"
| "truthy (JFloat f) = (\<not> is_zero f)"
| "truthy (JString s) = (s \<noteq> [])"
| "truthy (JArray xs) = (xs \<noteq> [])"
| "truthy (JObject kvs) = (kvs \<noteq> [])"

fun json_type_name :: "json \<Rightarrow> string" where
  "json_type_name JNull = ''NoneType''"
| "json_type_name (JBool b) = ''bool''"
| "json_type_name (JInt i) = ''int''"
| "json_type_name (JFloat f) = ''float''"
| "json_type_name (JString s) = ''str''"
| "json_type_name (JArray xs) = ''list''"
| "json_type_name (JObject kvs) = ''dict''"

definition no_attribute :: "json \<Rightarrow> string \<Rightarrow> error" where
  "no_attribute v attr =
     Exception AttributeError
       (quoted (json_type_name v) @ '' object has no attribute '' @ quoted attr)"

text \<open>
  The string methods the handler calls.  A Python string is a sequence of code points; the
  model has the code points below 256, which hold the two signs the handler replaces.
  Whitespace and digits are those of \<^verbatim>\<open>str.isspace\<close> and \<^verbatim>\<open>str.isdigit\<close> in that range: the
  digits include the superscripts two, three and one.
\<close>

definition replace_char :: "char \<Rightarrow> char \<Rightarrow> string \<Rightarrow> string" where
  "replace_char old new s = map (\<lambda>c. if c = old then new else c) s"

definition isspace :: "char \<Rightarrow> bool" where
  "isspace c = (c \<in> set [CHR 0x09, CHR 0x0A, CHR 0x0B, CHR 0x0C, CHR 0x0D, CHR 0x1C, CHR 0x1D,
                           CHR 0x1E, CHR 0x1F, CHR 0x20, CHR 0x85, CHR 0xA0])"

definition strip :: "string \<Rightarrow> string" where
  "strip s = rev (dropWhile isspace (rev (dropWhile isspace s)))"

fun remove_first :: "char \<Rightarrow> string \<Rightarrow> string" where
  "remove_first c [] = []"
| "remove_first c (x # xs) = (if x = c then xs else x # remove_first c xs)"

definition isdigit_char :: "char \<Rightarrow> bool" where
  "isdigit_char c = (c \<in> set ''0123456789'' \<or> c \<in> set [CHR 0xB2, CHR 0xB3, CHR 0xB9])"

definition isdigit :: "string \<Rightarrow> bool" where
  "isdigit s = (s \<noteq> [] \<and> list_all isdigit_char s)"

definition endswith_percent :: "string \<Rightarrow> bool" where
  "endswith_percent s = (s \<noteq> [] \<and> last s = CHR ''%'')"

text \<open>
  The two statements of the handler that prepare the expression: the replacement of the
  multiplication and division signs, and the rewriting of a trailing percent sign.
\<close>

definition clean :: "string \<Rightarrow> string" where
  "clean expr = replace_char (CHR 0xF7) (CHR ''/'') (replace_char (CHR 0xD7) (CHR ''*'') expr)"

definition percent :: "string \<Rightarrow> string" where
  "percent cleaned =
     (if endswith_percent cleaned \<and> isdigit (remove_first (CHR ''.'') (strip (butlast cleaned)))
      then ''('' @ butlast cleaned @ '')/100''
      else cleaned)"

text \<open>
  \<^verbatim>\<open>jsonify\<close> serialises an int or a float; a complex number is not serialisable, and
  CPython 3.11 refuses to print an int of more than 4300 digits.
\<close>

datatype response = Success pyval string | Failure string

definition int_max_str_digits :: nat where
  "int_max_str_digits = 4300"

definition jsonify_ok :: "pyval \<Rightarrow> string \<Rightarrow> error + response" where
  "jsonify_ok result input =
     (case result of
        VInt n \<Rightarrow>
          if 10 ^ int_max_str_digits \<le> \<bar>n\<bar>
          then Inl (Exception ValueError
            (''Exceeds the limit (4300 digits) for integer string conversion; '' @
             ''use sys.set_int_max_str_digits() to increase the limit''))
          else Inr (Success result input)
      | VFloat f \<Rightarrow> Inr (Success result input)
      | VComplex re im \<Rightarrow>
          Inl (Exception TypeError ''Object of type complex is not JSON serializable''))"

text \<open>
  The handler returns a response, or an exception leaves it (\<open>Uncaught\<close>): the lookup of
  \<^verbatim>\<open>expr\<close> is outside the \<^verbatim>\<open>try\<close>, everything after it is inside, and \<^verbatim>\<open>except Exception\<close>
  turns each exception of the block into the failure response with its message.
\<close>

datatype outcome = Returned response | Uncaught error

definition dict_get :: "(string \<times> json) list \<Rightarrow> string \<Rightarrow> json \<Rightarrow> json" where
  "dict_get kvs k d = (case map_of (rev kvs) k of None \<Rightarrow> d | Some v \<Rightarrow> v)"

definition try_block :: "(string \<Rightarrow> error + node) \<Rightarrow> json \<Rightarrow> error + response" where
  "try_block ast_parse expr =
     (case expr of
        JString s \<Rightarrow>
          (case safe_eval ast_parse (percent (clean s)) of
             Inl e \<Rightarrow> Inl e
           | Inr result \<Rightarrow> jsonify_ok result s)
      | _ \<Rightarrow> Inl (no_attribute expr ''replace''))"

definition evaluate :: "(string \<Rightarrow> error + node) \<Rightarrow> json \<Rightarrow> outcome" where
  "evaluate ast_parse body =
     (let data = (if truthy body then body else JObject [])
      in case data of
           JObject kvs \<Rightarrow>
             (case try_block ast_parse (dict_get kvs ''expr'' (JString '''')) of
                Inl e \<Rightarrow> Returned (Failure (str e))
              | Inr r \<Rightarrow> Returned r)
         | _ \<Rightarrow> Uncaught (no_attribute data ''get''))"

section \<open>Predicates of the statements\<close>



text \<open>
  A value that is zero (an int, a float of either sign, a complex number with both parts
  zero), and a value that the coercion to a float accepts: an int beyond the range of a
  float raises \<^verbatim>\<open>OverflowError\<close> there.
\<close>

fun zero_val :: "pyval \<Rightarrow> bool" where
  "zero_val (VInt i) = (i = 0)"
| "zero_val (VFloat f) = is_zero f"
| "zero_val (VComplex re im) = (is_zero re \<and> is_zero im)"

fun fits_double :: "pyval \<Rightarrow> bool" where
  "fits_double (VInt i) = (\<not> is_inf (round_ratio i 1))"
| "fits_double _ = True"

section \<open>The order of evaluation and the lookup in the allow-list\<close>

lemma allowed_binary:
  "map_of ALLOWED_OPERATORS (BinTag opr) =
     (case opr of Add \<Rightarrow> Some (Binary op_add) | Sub \<Rightarrow> Some (Binary op_sub)
      | Mult \<Rightarrow> Some (Binary op_mul) | Div \<Rightarrow> Some (Binary op_truediv)
      | Pow_op \<Rightarrow> Some (Binary op_pow) | Mod \<Rightarrow> Some (Binary op_mod) | _ \<Rightarrow> None)"
  by (cases opr) (simp_all add: ALLOWED_OPERATORS_def)

lemma allowed_unary:
  "map_of ALLOWED_OPERATORS (UnTag opr) =
     (case opr of USub \<Rightarrow> Some (Unary op_neg) | UAdd \<Rightarrow> Some (Unary op_pos) | _ \<Rightarrow> None)"
  by (cases opr) (simp_all add: ALLOWED_OPERATORS_def)

text \<open>
  Claim C4.  A binary operation evaluates its left operand, then its right operand, then
  looks the operator tag up: a failure of the left operand is the failure of the node
  whatever the right operand and the operator are, a failure of the right operand comes
  next, an operator that is not in the table fails with the \<^verbatim>\<open>ValueError\<close> "Operator ...
  not allowed", and an operator of the table is applied to the two values.  A unary
  operation does the same with its one operand.
\<close>

theorem binop_left_right_lookup:
  "(eval_node l1 = Inl e1 \<longrightarrow> eval_node (BinOp l1 o1 r1) = Inl e1) \<and>
   (eval_node l2 = Inr a2 \<and> eval_node r2 = Inl e2 \<longrightarrow> eval_node (BinOp l2 o2 r2) = Inl e2) \<and>
   (eval_node l3 = Inr a3 \<and> eval_node r3 = Inr b3 \<and> map_of ALLOWED_OPERATORS (BinTag o3) = None
      \<longrightarrow> eval_node (BinOp l3 o3 r3) = Inl (Exception ValueError
            (''Operator '' @ class_repr (operator_name o3) @ '' not allowed''))) \<and>
   (eval_node l4 = Inr a4 \<and> eval_node r4 = Inr b4
      \<and> map_of ALLOWED_OPERATORS (BinTag o4) = Some (Binary f4)
      \<longrightarrow> eval_node (BinOp l4 o4 r4) = f4 a4 b4) \<and>
   (eval_node x5 = Inl e5 \<longrightarrow> eval_node (UnaryOp u5 x5) = Inl e5) \<and>
   (eval_node x6 = Inr a6 \<and> map_of ALLOWED_OPERATORS (UnTag u6) = None
      \<longrightarrow> eval_node (UnaryOp u6 x6) = Inl (Exception ValueError
            (''Unary operator '' @ class_repr (unaryop_name u6) @ '' not allowed''))) \<and>
   (eval_node x7 = Inr a7 \<and> map_of ALLOWED_OPERATORS (UnTag u7) = Some (Unary f7)
      \<longrightarrow> eval_node (UnaryOp u7 x7) = f7 a7)"
  by simp

theorem binop_left_right_lookup_witness:
  "eval_node (BinOp (Other ''Name'') FloorDiv (BinOp (Num (VInt 1)) Div (Num (VInt 0))))
     = Inl (Exception ValueError (''Unsupported expression: '' @ class_repr ''Name'')) \<and>
   eval_node (BinOp (Num (VInt 1)) FloorDiv (BinOp (Num (VInt 1)) Div (Num (VInt 0))))
     = Inl (Exception ZeroDivisionError ''division by zero'') \<and>
   eval_node (BinOp (Num (VInt 7)) FloorDiv (Num (VInt 2)))
     = Inl (Exception ValueError (''Operator '' @ class_repr ''FloorDiv'' @ '' not allowed'')) \<and>
   eval_node (BinOp (Num (VInt 7)) Sub (Num (VInt 2))) = Inr (VInt 5) \<and>
   eval_node (UnaryOp Invert (Other ''Name''))
     = Inl (Exception ValueError (''Unsupported expression: '' @ class_repr ''Name'')) \<and>
   eval_node (UnaryOp Invert (Num (VInt 1)))
     = Inl (Exception ValueError (''Unary operator '' @ class_repr ''Invert'' @ '' not allowed'')) \<and>
   eval_node (UnaryOp USub (Num (VInt 3))) = Inr (VInt (- 3))"
  using binop_left_right_lookup
    [of "Other ''Name''" "Exception ValueError (''Unsupported expression: '' @ class_repr ''Name'')"
        FloorDiv "BinOp (Num (VInt 1)) Div (Num (VInt 0))"
        "Num (VInt 1)" "VInt 1" "BinOp (Num (VInt 1)) Div (Num (VInt 0))"
        "Exception ZeroDivisionError ''division by zero''" FloorDiv
        "Num (VInt 7)" "VInt 7" "Num (VInt 2)" "VInt 2" FloorDiv
        "Num (VInt 7)" "VInt 7" "Num (VInt 2)" "VInt 2" Sub op_sub
        "Other ''Name''" "Exception ValueError (''Unsupported expression: '' @ class_repr ''Name'')"
        Invert
        "Num (VInt 1)" "VInt 1" Invert
        "Num (VInt 3)" "VInt 3" USub op_neg]
  by (simp add: allowed_binary allowed_unary long_true_divide_def)

section \<open>Nodes outside the arithmetic grammar\<close>





section \<open>The responses of the handler\<close>

lemma jsonify_ok_success:
  "jsonify_ok v s = Inr r \<Longrightarrow> r = Success v s \<and> ((\<exists>i. v = VInt i) \<or> (\<exists>f. v = VFloat f))"
  by (cases v) (auto simp: jsonify_ok_def split: if_splits)

lemma try_block_success:
  "try_block ast_parse x = Inr r
     \<Longrightarrow> \<exists>v s. r = Success v s \<and> ((\<exists>i. v = VInt i) \<or> (\<exists>f. v = VFloat f))"
  by (cases x) (auto simp: try_block_def split: sum.splits dest: jsonify_ok_success)

lemma evaluate_cases:
  "evaluate ast_parse body =
     (if truthy body \<and> (\<forall>kvs. body \<noteq> JObject kvs)
      then Uncaught (no_attribute body ''get'')
      else (case try_block ast_parse
                   (dict_get (case body of JObject kvs \<Rightarrow> kvs | _ \<Rightarrow> []) ''expr'' (JString ''''))
            of Inl e \<Rightarrow> Returned (Failure (str e)) | Inr r \<Rightarrow> Returned r))"
  by (cases body) (simp_all add: evaluate_def)

text \<open>
  Claim C6.  For every input string, sent as the member \<^verbatim>\<open>expr\<close> of the body, the handler
  returns a response and no exception leaves it; when the evaluation of the prepared
  string raises an exception, the response is the failure with the message of that
  exception.
\<close>

theorem failures_are_returned:
  assumes "map_of (rev kvs) ''expr'' = Some (JString s)"
  shows "(\<exists>r. evaluate ast_parse (JObject kvs) = Returned r) \<and>
         (safe_eval ast_parse (percent (clean s)) = Inl e
            \<longrightarrow> evaluate ast_parse (JObject kvs) = Returned (Failure (str e)))"
proof -
  from assms have "kvs \<noteq> []" by auto
  with assms show ?thesis
    by (auto simp: evaluate_def try_block_def dict_get_def split: sum.splits)
qed

theorem failures_are_returned_witness:
  "map_of (rev [(''expr'', JString ''10/0'')]) ''expr'' = Some (JString ''10/0'') \<and>
   safe_eval py_parse (percent (clean ''10/0''))
     = Inl (Exception ZeroDivisionError ''division by zero'') \<and>
   evaluate py_parse (JObject [(''expr'', JString ''10/0'')])
     = Returned (Failure ''division by zero'')"
proof -
  have m: "map_of (rev [(''expr'', JString ''10/0'')]) ''expr'' = Some (JString ''10/0'')"
    by simp
  have s: "safe_eval py_parse (percent (clean ''10/0''))
             = Inl (Exception ZeroDivisionError ''division by zero'')"
    by code_simp
  show ?thesis
    using failures_are_returned
      [OF m, of py_parse "Exception ZeroDivisionError ''division by zero''"] m s
    by simp
qed

text \<open>
  Claim C8, as stated: a successful evaluation returns an int or a float and no other
  type.  It does not hold for \<^verbatim>\<open>safe_eval\<close>: an imaginary literal is a number node, and its
  value is complex.
\<close>

theorem complex_result_counterexample:
  "safe_eval py_parse ''1j'' = Inr (VComplex (Fin 0 0) (Fin 1 0))"
  by code_simp

text \<open>
  Claim C8, amended: \<^verbatim>\<open>safe_eval\<close> returns an int, a float or a complex number; the result of
  a success response of the handler is an int or a float, since a complex result is not
  serialised and becomes a failure response.
\<close>

theorem success_is_int_or_float:
  assumes "evaluate ast_parse body = Returned (Success v input)"
  shows "(\<exists>i. v = VInt i) \<or> (\<exists>f. v = VFloat f)"
proof -
  from assms obtain x where "try_block ast_parse x = Inr (Success v input)"
    by (auto simp: evaluate_cases split: if_splits sum.splits)
  from try_block_success [OF this] show ?thesis by auto
qed

lemma digits_limit: "(10::int) \<le> 10 ^ int_max_str_digits"
proof -
  have "1 \<le> int_max_str_digits"
    by (simp add: int_max_str_digits_def)
  then have "(10::int) ^ 1 \<le> 10 ^ int_max_str_digits"
    by (rule power_increasing) simp
  then show ?thesis
    by (simp only: power_one_right)
qed

lemma jsonify_ok_small:
  "\<bar>n\<bar> < 10 \<Longrightarrow> jsonify_ok (VInt n) s = Inr (Success (VInt n) s)"
  using digits_limit by (simp add: jsonify_ok_def)

theorem success_is_int_or_float_witness:
  "evaluate py_parse (JObject [(''expr'', JString ''10%3'')])
     = Returned (Success (VInt 1) ''10%3'') \<and>
   ((\<exists>i. VInt 1 = VInt i) \<or> (\<exists>f. VInt 1 = VFloat f))"
proof -
  have s: "safe_eval py_parse (percent (clean ''10%3'')) = Inr (VInt 1)"
    by code_simp
  have e: "evaluate py_parse (JObject [(''expr'', JString ''10%3'')])
             = Returned (Success (VInt 1) ''10%3'')"
    by (simp add: evaluate_def try_block_def dict_get_def s jsonify_ok_small)
  show ?thesis using success_is_int_or_float [OF e] e by simp
qed



section \<open>The preparation of the input\<close>

text \<open>
  Claim C5, as stated: an input whose trimmed form ends with a percent sign and whose
  prefix is a number is rewritten.  It does not hold: the handler tests the input itself,
  not its trimmed form, so \<^verbatim>\<open>50% \<close> with a space at the end is left as it is and does not
  parse.
\<close>

theorem percent_trailing_space_counterexample:
  "endswith_percent (strip ''50% '') \<and>
   isdigit (remove_first (CHR ''.'') (strip (butlast (strip ''50% '')))) \<and>
   percent (clean ''50% '') = ''50% '' \<and>
   evaluate py_parse (JObject [(''expr'', JString ''50% '')])
     = Returned (Failure ''invalid syntax (<unknown>, line 1)'')"
  by code_simp

text \<open>
  Claim C5, amended: when the input, after the replacement of the multiplication and
  division signs, itself ends with a percent sign and its prefix, stripped of surrounding
  whitespace and of at most one point, consists of digits, the handler rewrites it to the
  prefix as typed, in parentheses, divided by 100; \<^verbatim>\<open>50%\<close> evaluates to 0.5.
\<close>

theorem percent_rewrite:
  "endswith_percent (clean expr) \<and>
   isdigit (remove_first (CHR ''.'') (strip (butlast (clean expr))))
   \<longrightarrow> percent (clean expr) = ''('' @ butlast (clean expr) @ '')/100''"
  by (simp add: percent_def)

theorem percent_rewrite_witness:
  "endswith_percent (clean ''50%'') \<and>
   isdigit (remove_first (CHR ''.'') (strip (butlast (clean ''50%'')))) \<and>
   percent (clean ''50%'') = ''(50)/100'' \<and>
   evaluate py_parse (JObject [(''expr'', JString ''50%'')])
     = Returned (Success (VFloat (Fin 1 (- 1))) ''50%'')"
proof -
  have c: "clean ''50%'' = ''50%''" by code_simp
  have h: "endswith_percent (clean ''50%'') \<and>
           isdigit (remove_first (CHR ''.'') (strip (butlast (clean ''50%''))))"
    by code_simp
  have e: "evaluate py_parse (JObject [(''expr'', JString ''50%'')])
             = Returned (Success (VFloat (Fin 1 (- 1))) ''50%'')"
    by code_simp
  show ?thesis
    using percent_rewrite [of "''50%''"] h e by (simp add: c)
qed

section \<open>Purity\<close>



section \<open>Arithmetic\<close>





section \<open>Division and modulo by zero\<close>

lemma round_ratio_0 [simp]: "round_ratio 0 d = Fin 0 0"
  by (simp add: round_ratio_def)

lemma is_zero_props:
  "is_zero z \<Longrightarrow> z \<noteq> NaN \<and> \<not> is_inf z \<and> \<not> lt0 z \<and> mant z = 0 \<and> z \<noteq> PInf \<and> z \<noteq> NInf"
  by (cases z) auto

lemma c_quot_zero: "is_zero re \<Longrightarrow> is_zero im \<Longrightarrow> c_quot a (re, im) = None"
  using is_zero_props [of re] is_zero_props [of im]
  by (simp add: c_quot_def float_le_def Let_def)

lemma as_double_fits: "fits_double a \<Longrightarrow> \<not> is_complex a \<Longrightarrow> \<exists>x. as_double a = Inr x"
  by (cases a) (simp_all add: int_as_double_def Let_def)

lemma as_complex_fits: "fits_double a \<Longrightarrow> \<exists>x. as_complex a = Inr x"
  by (cases a) (simp_all add: int_as_double_def and_then_def Let_def)

lemma as_double_zero: "zero_val b \<Longrightarrow> \<not> is_complex b \<Longrightarrow> \<exists>z. as_double b = Inr z \<and> is_zero z"
  by (cases b) (simp_all add: int_as_double_def Let_def)

lemma as_complex_zero:
  "zero_val b \<Longrightarrow> \<exists>re im. as_complex b = Inr (re, im) \<and> is_zero re \<and> is_zero im"
  by (cases b) (simp_all add: int_as_double_def and_then_def Let_def)

lemma truediv_zero:
  assumes "zero_val b" and "(\<exists>j. b = VInt j) \<or> fits_double a"
  shows "\<exists>msg. op_truediv a b = Inl (Exception ZeroDivisionError msg)"
proof (cases "\<exists>i j. a = VInt i \<and> b = VInt j")
  case True
  with assms show ?thesis by (auto simp: long_true_divide_def)
next
  case False
  have fa: "fits_double a"
  proof (cases a)
    case (VInt i)
    with False assms show ?thesis by (cases b) auto
  qed simp_all
  have step: "op_truediv a b =
     (if is_complex a \<or> is_complex b then with_complexes complex_div a b
      else with_doubles float_div a b)"
    using False by (cases a; cases b) simp_all
  show ?thesis
  proof (cases "is_complex a \<or> is_complex b")
    case True
    from as_complex_fits [OF fa] obtain x where x: "as_complex a = Inr x" by blast
    from as_complex_zero [OF assms(1)] obtain re im
      where z: "as_complex b = Inr (re, im)" "is_zero re" "is_zero im" by blast
    from True x z show ?thesis
      by (simp add: step with_complexes_def and_then_def complex_div_def c_quot_zero)
  next
    case nc: False
    from as_double_fits [OF fa] nc obtain x where x: "as_double a = Inr x" by blast
    from as_double_zero [OF assms(1)] nc obtain z where z: "as_double b = Inr z" "is_zero z"
      by blast
    from nc x z show ?thesis
      by (simp add: step with_doubles_def and_then_def float_div_def)
  qed
qed

lemma mod_zero:
  assumes "zero_val b" and "(\<exists>j. b = VInt j) \<or> fits_double a"
    and "\<not> is_complex a" and "\<not> is_complex b"
  shows "\<exists>msg. op_mod a b = Inl (Exception ZeroDivisionError msg)"
proof (cases "\<exists>i j. a = VInt i \<and> b = VInt j")
  case True
  with assms show ?thesis by (auto simp: long_mod_def)
next
  case False
  have fa: "fits_double a"
  proof (cases a)
    case (VInt i)
    with False assms show ?thesis by (cases b) auto
  qed simp_all
  have step: "op_mod a b = with_doubles float_rem a b"
    using False assms(3,4) by (cases a; cases b) simp_all
  from as_double_fits [OF fa assms(3)] obtain x where x: "as_double a = Inr x" by blast
  from as_double_zero [OF assms(1,4)] obtain z where z: "as_double b = Inr z" "is_zero z"
    by blast
  from x z show ?thesis
    by (simp add: step with_doubles_def and_then_def float_rem_def)
qed

text \<open>
  Claim C2, as stated: every division or modulo by zero fails with the division-by-zero
  error.  It does not hold: the operands are coerced before the divisor is tested, so an
  int beyond the range of a float divided by the float zero raises \<^verbatim>\<open>OverflowError\<close>.
\<close>

theorem division_by_zero_counterexample:
  "safe_eval py_parse ''10**400/0.0''
     = Inl (Exception OverflowError ''int too large to convert to float'')"
  by code_simp

text \<open>
  Claim C2, amended: a division or a modulo whose operands evaluate and whose right
  operand is zero raises Python's \<^verbatim>\<open>ZeroDivisionError\<close>, provided that the divisor is an int
  or the left operand is accepted by the coercion to a float, and that no operand of a
  modulo is complex (the modulo of a complex number raises \<^verbatim>\<open>TypeError\<close>).  The handler
  returns the exception as a failure response, as every other one.
\<close>

theorem division_by_zero:
  assumes "eval_node l = Inr a" and "eval_node r = Inr b" and "zero_val b"
    and "opr = Div \<or> opr = Mod"
    and "(\<exists>j. b = VInt j) \<or> fits_double a"
    and "opr = Mod \<longrightarrow> \<not> is_complex a \<and> \<not> is_complex b"
  shows "\<exists>msg. eval_node (BinOp l opr r) = Inl (Exception ZeroDivisionError msg)"
proof -
  from assms(4) show ?thesis
  proof
    assume "opr = Div"
    with assms(1,2) truediv_zero [OF assms(3,5)] show ?thesis
      by (simp add: allowed_binary)
  next
    assume m: "opr = Mod"
    with assms(6) have "\<not> is_complex a" "\<not> is_complex b" by simp_all
    from mod_zero [OF assms(3,5) this] m assms(1,2) show ?thesis
      by (simp add: allowed_binary)
  qed
qed

theorem division_by_zero_witness:
  "eval_node (Num (VInt 10)) = Inr (VInt 10) \<and>
   eval_node (Num (VInt 0)) = Inr (VInt 0) \<and>
   zero_val (VInt 0) \<and>
   (\<exists>msg. eval_node (BinOp (Num (VInt 10)) Div (Num (VInt 0)))
            = Inl (Exception ZeroDivisionError msg)) \<and>
   eval_node (BinOp (Num (VInt 10)) Div (Num (VInt 0)))
     = Inl (Exception ZeroDivisionError ''division by zero'') \<and>
   (\<exists>msg. eval_node (BinOp (Num (VFloat (Fin 3 (- 1)))) Mod (Num (VFloat NegZero)))
            = Inl (Exception ZeroDivisionError msg))"
  using division_by_zero [of "Num (VInt 10)" "VInt 10" "Num (VInt 0)" "VInt 0" Div]
    division_by_zero [of "Num (VFloat (Fin 3 (- 1)))" "VFloat (Fin 3 (- 1))"
                         "Num (VFloat NegZero)" "VFloat NegZero" Mod]
  by (simp add: allowed_binary long_true_divide_def)

section \<open>Exponentiation\<close>




end
